theory Spec2Isabelle
  imports Main
begin

section \<open>The symbolic arithmetic engine of computress-ai\<close>

text \<open>
  A shallow embedding of \<^verbatim>\<open>src/symbolic_engine/operators.py\<close> and
  \<^verbatim>\<open>src/symbolic_engine/expression_eval.py\<close>: the expression classes, the numeric
  functions of the five operators, \<^verbatim>\<open>evaluate\<close>, \<^verbatim>\<open>simplify\<close>, \<^verbatim>\<open>__str__\<close>,
  \<^verbatim>\<open>substitute\<close>, the tokenizer and the recursive-descent parser.
\<close>

subsection \<open>Exceptions\<close>

text \<open>
  Every exception the two modules can raise is a value. \<open>ValueError\<close> carries the message
  the source builds, since the parser tells its failures apart only by message.
\<close>

datatype error =
    AttributeError
  | ValueError string
  | ZeroDivisionError
  | IndexError
  | TypeError
  | OverflowError

subsection \<open>Numbers of the host language\<close>

text \<open>
  The values the engine computes with are Python's own \<^verbatim>\<open>int\<close> (unbounded) and
  \<^verbatim>\<open>float\<close>. Integers are modelled exactly. Floats are kept abstract: \<open>'f\<close> is the
  type of float values and the record \<open>host\<close> holds what the interpreter does with them, so
  every theorem below holds whatever the float arithmetic is, and every concrete evaluation
  below only goes through integers.
\<close>

datatype 'f pynum = PInt int | PFloat 'f

datatype binop = BAdd | BSub | BMul | BTrueDiv | BPow

record 'f host =
  float_of_str :: "string \<Rightarrow> 'f"
    \<comment> \<open>\<^verbatim>\<open>float(token)\<close> on a token with a decimal point\<close>
  float_eq_int :: "'f \<Rightarrow> int \<Rightarrow> bool"
    \<comment> \<open>\<^verbatim>\<open>f == k\<close> for a float \<open>f\<close> and an integer literal \<open>k\<close>\<close>
  float_binop :: "binop \<Rightarrow> 'f pynum \<Rightarrow> 'f pynum \<Rightarrow> error + 'f pynum"
    \<comment> \<open>an arithmetic operator whose result is not an exact integer operation: an operand is
        a float, or the operator is \<^verbatim>\<open>/\<close>, or \<^verbatim>\<open>**\<close> with a negative integer exponent\<close>
  float_str :: "'f \<Rightarrow> string"
    \<comment> \<open>\<^verbatim>\<open>str(f)\<close>\<close>

text \<open>\<^verbatim>\<open>n == k\<close> for a number \<open>n\<close> and an integer literal \<open>k\<close>.\<close>

fun num_eq_int :: "'f host \<Rightarrow> 'f pynum \<Rightarrow> int \<Rightarrow> bool" where
  "num_eq_int H (PInt i) k = (i = k)"
| "num_eq_int H (PFloat f) k = float_eq_int H f k"

text \<open>
  The binary operators \<^verbatim>\<open>+ - * / **\<close> on numbers. On two integers \<^verbatim>\<open>+\<close>, \<^verbatim>\<open>-\<close>,
  \<^verbatim>\<open>*\<close> and \<^verbatim>\<open>**\<close> with an exponent that is not negative are exact; everything else
  is the host's float arithmetic.
\<close>

fun num_binop :: "'f host \<Rightarrow> binop \<Rightarrow> 'f pynum \<Rightarrow> 'f pynum \<Rightarrow> error + 'f pynum" where
  "num_binop H BAdd (PInt a) (PInt b) = Inr (PInt (a + b))"
| "num_binop H BSub (PInt a) (PInt b) = Inr (PInt (a - b))"
| "num_binop H BMul (PInt a) (PInt b) = Inr (PInt (a * b))"
| "num_binop H BPow (PInt a) (PInt b) =
     (if 0 \<le> b then Inr (PInt (a ^ nat b)) else float_binop H BPow (PInt a) (PInt b))"
| "num_binop H bop x y = float_binop H bop x y"

subsection \<open>Expression trees\<close>

text \<open>
  The classes of \<^verbatim>\<open>operators.py\<close>: \<^verbatim>\<open>Symbol\<close> and the five subclasses of
  \<^verbatim>\<open>SymbolicOperator\<close>, which keep their operands in the list \<^verbatim>\<open>self.args\<close>. There
  is no class for a numeric constant: where a tree holds a number, it holds the bare
  \<^verbatim>\<open>int\<close> or \<^verbatim>\<open>float\<close>, which is not a \<^verbatim>\<open>SymbolicExpression\<close> and has none of its
  methods. \<open>Num\<close> is such a bare number.
\<close>

datatype kind = Add | Subtract | Multiply | Divide | Power

datatype 'f expr =
    Num "'f pynum"
  | Symbol string
  | Op kind "'f expr list"

text \<open>\<^verbatim>\<open>isinstance(e, numbers.Number)\<close>\<close>

fun is_number :: "'f expr \<Rightarrow> bool" where
  "is_number (Num n) = True"
| "is_number e = False"

text \<open>\<^verbatim>\<open>isinstance(e, SymbolicOperator)\<close>\<close>

fun is_operator :: "'f expr \<Rightarrow> bool" where
  "is_operator (Op k as) = True"
| "is_operator e = False"

text \<open>The number held by a \<open>Num\<close>; only used under \<open>is_number\<close>.\<close>

fun num_of :: "'f expr \<Rightarrow> 'f pynum" where
  "num_of (Num n) = n"
| "num_of e = PInt 0"

text \<open>
  The constructors. \<^verbatim>\<open>SymbolicOperator.__init__\<close> refuses an empty operand list with a
  \<^verbatim>\<open>ValueError\<close>; \<^verbatim>\<open>Subtract\<close>, \<^verbatim>\<open>Divide\<close> and \<^verbatim>\<open>Power\<close> declare exactly two
  positional parameters, so that any other number of operands is a \<^verbatim>\<open>TypeError\<close>.
\<close>

definition binary :: "kind \<Rightarrow> bool" where
  "binary k = (k = Subtract \<or> k = Divide \<or> k = Power)"

definition construct :: "kind \<Rightarrow> 'f expr list \<Rightarrow> error + 'f expr" where
  "construct k as =
     (if binary k then
        (if length as = 2 then Inr (Op k as) else Inl TypeError)
      else
        (if as = [] then Inl (ValueError ''Operator must have at least one argument.'')
         else Inr (Op k as)))"

text \<open>
  A list comprehension whose body may raise: the elements are computed left to right and
  the first exception ends the comprehension.
\<close>

fun collect :: "(error + 'a) list \<Rightarrow> error + 'a list" where
  "collect [] = Inr []"
| "collect (Inl e # rs) = Inl e"
| "collect (Inr x # rs) = (case collect rs of Inl e \<Rightarrow> Inl e | Inr xs \<Rightarrow> Inr (x # xs))"

subsection \<open>The numeric functions \<^verbatim>\<open>_op\<close>\<close>

text \<open>
  \<^verbatim>\<open>Add._op\<close> is \<^verbatim>\<open>sum(values)\<close>, which starts at the integer 0 and adds from the left;
  \<^verbatim>\<open>Multiply._op\<close> starts at 1 and multiplies from the left.
\<close>

fun fold_num :: "'f host \<Rightarrow> binop \<Rightarrow> 'f pynum \<Rightarrow> 'f pynum list \<Rightarrow> error + 'f pynum" where
  "fold_num H bop acc [] = Inr acc"
| "fold_num H bop acc (v # vs) =
     (case num_binop H bop acc v of Inl e \<Rightarrow> Inl e | Inr acc' \<Rightarrow> fold_num H bop acc' vs)"

text \<open>
  \<^verbatim>\<open>Subtract._op\<close>, \<^verbatim>\<open>Divide._op\<close> and \<^verbatim>\<open>Power._op\<close> take exactly two values
  (a \<^verbatim>\<open>TypeError\<close> otherwise). \<^verbatim>\<open>Divide._op\<close> tests \<^verbatim>\<open>denominator == 0\<close> and raises
  before it divides.
\<close>

fun op_num :: "'f host \<Rightarrow> kind \<Rightarrow> 'f pynum list \<Rightarrow> error + 'f pynum" where
  "op_num H Add vs = fold_num H BAdd (PInt 0) vs"
| "op_num H Multiply vs = fold_num H BMul (PInt 1) vs"
| "op_num H Subtract [l, r] = num_binop H BSub l r"
| "op_num H Divide [n, d] =
     (if num_eq_int H d 0 then Inl ZeroDivisionError else num_binop H BTrueDiv n d)"
| "op_num H Power [b, e] = num_binop H BPow b e"
| "op_num H k vs = Inl TypeError"

subsection \<open>\<^verbatim>\<open>evaluate\<close>\<close>

text \<open>
  A keyword argument of \<^verbatim>\<open>evaluate\<close> may hold any object; \<^verbatim>\<open>Symbol.evaluate\<close> accepts
  an \<^verbatim>\<open>int\<close> or a \<^verbatim>\<open>float\<close> and raises a \<^verbatim>\<open>ValueError\<close> on anything else.
\<close>

datatype 'f bound = BNum "'f pynum" | BOther

type_synonym 'f bindings = "string \<rightharpoonup> 'f bound"

text \<open>
  The methods \<^verbatim>\<open>expr.evaluate(**kwargs)\<close>:
  \<^item> on a bare number the attribute lookup fails, an \<^verbatim>\<open>AttributeError\<close>;
  \<^item> on a symbol or an operator the keywords are bound before the body runs, and a keyword
    named \<^verbatim>\<open>self\<close> collides with the method's first parameter, a \<^verbatim>\<open>TypeError\<close>;
  \<^item> \<^verbatim>\<open>Symbol.evaluate\<close> returns the bound number, or the symbol itself;
  \<^item> \<^verbatim>\<open>SymbolicOperator.evaluate\<close> evaluates the operands from the left with
    \<^verbatim>\<open>arg.evaluate(**kwargs)\<close>, then applies \<^verbatim>\<open>_op\<close> when all of them are numbers
    (a \<^verbatim>\<open>ZeroDivisionError\<close> of \<^verbatim>\<open>_op\<close> is caught and raised again as a
    \<^verbatim>\<open>ZeroDivisionError\<close>), and rebuilds the node with its own class otherwise.
\<close>

fun evaluate :: "'f host \<Rightarrow> 'f expr \<Rightarrow> 'f bindings \<Rightarrow> error + 'f expr" where
  "evaluate H (Num n) kw = Inl AttributeError"
| "evaluate H (Symbol name) kw =
     (if kw ''self'' = None then
        (case kw name of
           None \<Rightarrow> Inr (Symbol name)
         | Some (BNum v) \<Rightarrow> Inr (Num v)
         | Some BOther \<Rightarrow>
             Inl (ValueError (''Value for symbol '' @ [CHR 0x27] @ name @ [CHR 0x27] @ '' must be numeric.'')))
      else Inl TypeError)"
| "evaluate H (Op k as) kw =
     (if kw ''self'' = None then
        (case collect (map (\<lambda>a. evaluate H a kw) as) of
           Inl e \<Rightarrow> Inl e
         | Inr evaluated_args \<Rightarrow>
             if list_all is_number evaluated_args then
               (case op_num H k (map num_of evaluated_args) of
                  Inl e \<Rightarrow> Inl e
                | Inr v \<Rightarrow> Inr (Num v))
             else construct k evaluated_args)
      else Inl TypeError)"

text \<open>
  \<^verbatim>\<open>ExpressionEvaluator.evaluate(self, expr, **kwargs)\<close> returns
  \<^verbatim>\<open>expr.evaluate(**kwargs)\<close>. Its own parameters are \<^verbatim>\<open>self\<close> and \<^verbatim>\<open>expr\<close>, so a
  keyword of either name is a \<^verbatim>\<open>TypeError\<close> of the call.
\<close>

definition evaluator_evaluate :: "'f host \<Rightarrow> 'f expr \<Rightarrow> 'f bindings \<Rightarrow> error + 'f expr" where
  "evaluator_evaluate H expr kw =
     (if kw ''self'' = None \<and> kw ''expr'' = None then evaluate H expr kw else Inl TypeError)"

subsection \<open>\<^verbatim>\<open>simplify\<close>\<close>

text \<open>\<^verbatim>\<open>isinstance(e, numbers.Number) and e == k\<close>\<close>

fun is_num_eq :: "'f host \<Rightarrow> 'f expr \<Rightarrow> int \<Rightarrow> bool" where
  "is_num_eq H (Num n) k = num_eq_int H n k"
| "is_num_eq H e k = False"

text \<open>
  \<^verbatim>\<open>ExpressionEvaluator.simplify(expr)\<close> is \<^verbatim>\<open>expr.simplify()\<close>. A bare number has no
  such method; \<^verbatim>\<open>Symbol.simplify\<close> returns the symbol; \<^verbatim>\<open>SymbolicOperator.simplify\<close>
  first builds \<^verbatim>\<open>[arg.simplify() for arg in self.args]\<close> and then looks at its own class.
  The \<^verbatim>\<open>Power\<close> branch unpacks the list into two names (a \<^verbatim>\<open>ValueError\<close> unless it
  has two elements; its message, which depends on the count, is shortened here) and falls
  through to the default when none of its three tests holds.
\<close>

fun simplify_node :: "'f host \<Rightarrow> kind \<Rightarrow> 'f expr list \<Rightarrow> error + 'f expr" where
  "simplify_node H Add simplified_args =
     (let non_zero = filter (\<lambda>arg. \<not> is_num_eq H arg 0) simplified_args in
      if non_zero = [] then Inr (Num (PInt 0))
      else if length non_zero = 1 then Inr (hd non_zero)
      else construct Add non_zero)"
| "simplify_node H Multiply simplified_args =
     (if list_ex (\<lambda>arg. is_num_eq H arg 0) simplified_args then Inr (Num (PInt 0))
      else
        let non_one = filter (\<lambda>arg. \<not> is_num_eq H arg 1) simplified_args in
        if non_one = [] then Inr (Num (PInt 1))
        else if length non_one = 1 then Inr (hd non_one)
        else construct Multiply non_one)"
| "simplify_node H Power simplified_args =
     (case simplified_args of
        [base, exp] \<Rightarrow>
          if is_num_eq H exp 1 then Inr base
          else if is_num_eq H exp 0 then Inr (Num (PInt 1))
          else if is_num_eq H base 1 then Inr (Num (PInt 1))
          else construct Power simplified_args
      | _ \<Rightarrow> Inl (ValueError ''values to unpack (expected 2)''))"
| "simplify_node H k simplified_args = construct k simplified_args"

fun simplify :: "'f host \<Rightarrow> 'f expr \<Rightarrow> error + 'f expr" where
  "simplify H (Num n) = Inl AttributeError"
| "simplify H (Symbol name) = Inr (Symbol name)"
| "simplify H (Op k as) =
     (case collect (map (simplify H) as) of
        Inl e \<Rightarrow> Inl e
      | Inr simplified_args \<Rightarrow> simplify_node H k simplified_args)"

subsection \<open>\<^verbatim>\<open>__str__\<close>\<close>

text \<open>\<^verbatim>\<open>str(i)\<close> of an integer: its decimal digits, after a minus sign when negative.\<close>

definition digit_char :: "nat \<Rightarrow> char" where
  "digit_char d = ''0123456789'' ! d"

function str_nat :: "nat \<Rightarrow> string" where
  "str_nat n = (if n < 10 then [digit_char n] else str_nat (n div 10) @ [digit_char (n mod 10)])"
  by pat_completeness auto
termination
  by (relation "measure (\<lambda>n. n)") auto

definition str_int :: "int \<Rightarrow> string" where
  "str_int i = (if i < 0 then CHR ''-'' # str_nat (nat (- i)) else str_nat (nat i))"

fun str_num :: "'f host \<Rightarrow> 'f pynum \<Rightarrow> string" where
  "str_num H (PInt i) = str_int i"
| "str_num H (PFloat f) = float_str H f"

text \<open>\<^verbatim>\<open>sep.join(parts)\<close>\<close>

fun join :: "string \<Rightarrow> string list \<Rightarrow> string" where
  "join sep [] = []"
| "join sep [p] = p"
| "join sep (p # ps) = p @ sep @ join sep ps"

text \<open>
  \<^verbatim>\<open>str(e)\<close>. \<^verbatim>\<open>Add\<close> and \<^verbatim>\<open>Multiply\<close> join their operands, with parentheses
  around an operand that is itself an operator; \<^verbatim>\<open>Subtract\<close>, \<^verbatim>\<open>Divide\<close> and
  \<^verbatim>\<open>Power\<close> unpack \<^verbatim>\<open>self.args\<close> into two names and put parentheses around both.
\<close>

definition wrap :: "string \<Rightarrow> string" where
  "wrap s = ''('' @ s @ '')''"

fun infix_str :: "kind \<Rightarrow> string" where
  "infix_str Add = '' + ''"
| "infix_str Multiply = '' * ''"
| "infix_str Subtract = '' - ''"
| "infix_str Divide = '' / ''"
| "infix_str Power = ''^''"

fun render :: "'f host \<Rightarrow> 'f expr \<Rightarrow> error + string" where
  "render H (Num n) = Inr (str_num H n)"
| "render H (Symbol name) = Inr name"
| "render H (Op k as) =
     (case collect (map (\<lambda>a. case render H a of
                               Inl e \<Rightarrow> Inl e
                             | Inr s \<Rightarrow> Inr (is_operator a, s)) as) of
        Inl e \<Rightarrow> Inl e
      | Inr parts \<Rightarrow>
          if binary k then
            (case parts of
               [(lo, l), (ro, r)] \<Rightarrow> Inr (wrap l @ infix_str k @ wrap r)
             | _ \<Rightarrow> Inl (ValueError ''values to unpack (expected 2)''))
          else
            Inr (join (infix_str k) (map (\<lambda>(par, s). if par then wrap s else s) parts)))"

subsection \<open>\<^verbatim>\<open>substitute\<close>\<close>

text \<open>
  \<^verbatim>\<open>ExpressionEvaluator.substitute\<close>: a symbol whose name is a key of the dictionary is
  replaced by the value stored there (which is not searched again); an object with an
  \<^verbatim>\<open>args\<close> attribute is rebuilt by its own class from its substituted operands; anything
  else, a symbol that is no key or a bare number, is returned as it is.
\<close>

fun substitute :: "'f expr \<Rightarrow> (string \<rightharpoonup> 'f expr) \<Rightarrow> error + 'f expr" where
  "substitute (Symbol name) substitutions =
     (case substitutions name of Some r \<Rightarrow> Inr r | None \<Rightarrow> Inr (Symbol name))"
| "substitute (Op k as) substitutions =
     (case collect (map (\<lambda>arg. substitute arg substitutions) as) of
        Inl e \<Rightarrow> Inl e
      | Inr new_args \<Rightarrow> construct k new_args)"
| "substitute (Num n) substitutions = Inr (Num n)"

subsection \<open>The tokenizer\<close>

text \<open>
  The character classes of the token pattern
  \<^verbatim>\<open>(\d+\.?\d*|[a-zA-Z_][a-zA-Z0-9_]*|[+\-*/^()])\<close>. Strings are lists of 8-bit
  characters, among which \<^verbatim>\<open>\d\<close> matches the ten ASCII digits only.
\<close>

definition is_digit :: "char \<Rightarrow> bool" where
  "is_digit c = (c \<in> set ''0123456789'')"

definition is_letter :: "char \<Rightarrow> bool" where
  "is_letter c = (c \<in> set ''abcdefghijklmnopqrstuvwxyzABCDEFGHIJKLMNOPQRSTUVWXYZ'')"

definition is_ident_start :: "char \<Rightarrow> bool" where
  "is_ident_start c = (is_letter c \<or> c = CHR ''_'')"

definition is_ident_char :: "char \<Rightarrow> bool" where
  "is_ident_char c = (is_letter c \<or> is_digit c \<or> c = CHR ''_'')"

definition is_op_char :: "char \<Rightarrow> bool" where
  "is_op_char c = (c \<in> set ''+-*/^()'')"

text \<open>
  \<^verbatim>\<open>re.findall(token_pattern, s)\<close>: the matches of the pattern from left to right, none
  overlapping another. At a position where no alternative matches, the search moves on by
  one character, so that character is in no token. Every quantifier of the pattern is
  greedy and what follows it is optional, so a match never backtracks: a number is all the
  digits there are, then a dot if there is one, then all the digits after it.
\<close>

function findall :: "string \<Rightarrow> string list" where
  "findall [] = []"
| "findall (c # cs) =
     (if is_digit c then
        (case dropWhile is_digit cs of
           [] \<Rightarrow> [c # takeWhile is_digit cs]
         | d # r \<Rightarrow>
             if d = CHR ''.'' then
               (c # takeWhile is_digit cs @ [d] @ takeWhile is_digit r)
                 # findall (dropWhile is_digit r)
             else (c # takeWhile is_digit cs) # findall (d # r))
      else if is_ident_start c then
        (c # takeWhile is_ident_char cs) # findall (dropWhile is_ident_char cs)
      else if is_op_char c then [c] # findall cs
      else findall cs)"
  by pat_completeness auto
termination
proof (relation "measure length", goal_cases)
  case 1
  show ?case by simp
next
  case (2 c cs d r)
  have "length (dropWhile is_digit r) \<le> length r"
    by (rule length_dropWhile_le)
  moreover have "length (d # r) \<le> length cs"
    using 2 length_dropWhile_le [of is_digit cs] by simp
  ultimately show ?case by simp
next
  case (3 c cs d r)
  have "length (d # r) \<le> length cs"
    using 3 length_dropWhile_le [of is_digit cs] by simp
  then show ?case by simp
next
  case (4 c cs)
  show ?case using length_dropWhile_le [of is_ident_char cs] by simp
next
  case (5 c cs)
  show ?case by simp
next
  case (6 c cs)
  show ?case by simp
qed

text \<open>
  \<^verbatim>\<open>Parser.tokenize\<close>: the spaces are removed from the input first
  (\<^verbatim>\<open>expression.replace(' ', '')\<close>), then the pattern is searched. It returns the token
  list and raises nothing.
\<close>

definition tokenize :: "string \<Rightarrow> string list" where
  "tokenize expression = findall (filter (\<lambda>c. c \<noteq> CHR '' '') expression)"

subsection \<open>The parser\<close>

text \<open>
  The tests of \<^verbatim>\<open>Parser.factor\<close> on a token: \<^verbatim>\<open>token.isdigit()\<close> and
  \<^verbatim>\<open>token.isalpha()\<close> hold of a string that is not empty and has only digits, or only
  letters; an underscore is not a letter. \<^verbatim>\<open>int(token)\<close> reads a string of digits in
  base ten.
\<close>

definition isdigit :: "string \<Rightarrow> bool" where
  "isdigit token = (token \<noteq> [] \<and> list_all is_digit token)"

definition isalpha :: "string \<Rightarrow> bool" where
  "isalpha token = (token \<noteq> [] \<and> list_all is_letter token)"

definition digit_val :: "char \<Rightarrow> int" where
  "digit_val c = int (length (takeWhile (\<lambda>d. d \<noteq> c) ''0123456789''))"

definition int_of_str :: "string \<Rightarrow> int" where
  "int_of_str token = foldl (\<lambda>acc c. 10 * acc + digit_val c) 0 token"

text \<open>
  The four mutually recursive methods of \<^verbatim>\<open>Parser\<close> read \<^verbatim>\<open>self.tokens\<close> at the
  cursor \<^verbatim>\<open>self.pos\<close>: here they take the token list and the cursor and return the tree
  with the new cursor. The two \<^verbatim>\<open>while\<close> loops are the functions \<open>expression_loop\<close>
  and \<open>term_loop\<close>, which carry \<^verbatim>\<open>left\<close>. The first argument bounds the depth of the
  calls: \<open>None\<close> is a parse that was cut off, not a result of the source.
  A read \<^verbatim>\<open>self.tokens[self.pos]\<close> raises an \<^verbatim>\<open>IndexError\<close> when the cursor is at
  the end; \<^verbatim>\<open>factor\<close> reads without a test, the other methods test
  \<^verbatim>\<open>self.pos < len(self.tokens)\<close> first. A constructor called with two operands
  succeeds.
\<close>

type_synonym 'f parsed = "(error + 'f expr \<times> nat) option"

function (sequential) expression :: "'f host \<Rightarrow> nat \<Rightarrow> string list \<Rightarrow> nat \<Rightarrow> 'f parsed"
  and expression_loop :: "'f host \<Rightarrow> nat \<Rightarrow> string list \<Rightarrow> 'f expr \<Rightarrow> nat \<Rightarrow> 'f parsed"
  and term' :: "'f host \<Rightarrow> nat \<Rightarrow> string list \<Rightarrow> nat \<Rightarrow> 'f parsed"
  and term_loop :: "'f host \<Rightarrow> nat \<Rightarrow> string list \<Rightarrow> 'f expr \<Rightarrow> nat \<Rightarrow> 'f parsed"
  and power' :: "'f host \<Rightarrow> nat \<Rightarrow> string list \<Rightarrow> nat \<Rightarrow> 'f parsed"
  and factor :: "'f host \<Rightarrow> nat \<Rightarrow> string list \<Rightarrow> nat \<Rightarrow> 'f parsed"
where
  "expression H 0 tokens pos = None"
| "expression H (Suc n) tokens pos =
     (case term' H n tokens pos of
        None \<Rightarrow> None
      | Some (Inl e) \<Rightarrow> Some (Inl e)
      | Some (Inr (left, pos1)) \<Rightarrow> expression_loop H n tokens left pos1)"
| "expression_loop H 0 tokens left pos = None"
| "expression_loop H (Suc n) tokens left pos =
     (if pos < length tokens \<and> (tokens ! pos = ''+'' \<or> tokens ! pos = ''-'') then
        (case term' H n tokens (pos + 1) of
           None \<Rightarrow> None
         | Some (Inl e) \<Rightarrow> Some (Inl e)
         | Some (Inr (right, pos1)) \<Rightarrow>
             expression_loop H n tokens
               (if tokens ! pos = ''+'' then Op Add [left, right] else Op Subtract [left, right])
               pos1)
      else Some (Inr (left, pos)))"
| "term' H 0 tokens pos = None"
| "term' H (Suc n) tokens pos =
     (case power' H n tokens pos of
        None \<Rightarrow> None
      | Some (Inl e) \<Rightarrow> Some (Inl e)
      | Some (Inr (left, pos1)) \<Rightarrow> term_loop H n tokens left pos1)"
| "term_loop H 0 tokens left pos = None"
| "term_loop H (Suc n) tokens left pos =
     (if pos < length tokens \<and> (tokens ! pos = ''*'' \<or> tokens ! pos = ''/'') then
        (case power' H n tokens (pos + 1) of
           None \<Rightarrow> None
         | Some (Inl e) \<Rightarrow> Some (Inl e)
         | Some (Inr (right, pos1)) \<Rightarrow>
             term_loop H n tokens
               (if tokens ! pos = ''*'' then Op Multiply [left, right] else Op Divide [left, right])
               pos1)
      else Some (Inr (left, pos)))"
| "power' H 0 tokens pos = None"
| "power' H (Suc n) tokens pos =
     (case factor H n tokens pos of
        None \<Rightarrow> None
      | Some (Inl e) \<Rightarrow> Some (Inl e)
      | Some (Inr (left, pos1)) \<Rightarrow>
          if pos1 < length tokens \<and> tokens ! pos1 = ''^'' then
            (case power' H n tokens (pos1 + 1) of
               None \<Rightarrow> None
             | Some (Inl e) \<Rightarrow> Some (Inl e)
             | Some (Inr (right, pos2)) \<Rightarrow> Some (Inr (Op Power [left, right], pos2)))
          else Some (Inr (left, pos1)))"
| "factor H 0 tokens pos = None"
| "factor H (Suc n) tokens pos =
     (if pos < length tokens then
        (let token = tokens ! pos in
         if token = ''('' then
           (case expression H n tokens (pos + 1) of
              None \<Rightarrow> None
            | Some (Inl e) \<Rightarrow> Some (Inl e)
            | Some (Inr (expr, pos1)) \<Rightarrow>
                if pos1 < length tokens \<and> tokens ! pos1 = '')'' then Some (Inr (expr, pos1 + 1))
                else Some (Inl (ValueError ''Mismatched parentheses'')))
         else if isdigit token \<or> CHR ''.'' \<in> set token then
           Some (Inr (Num (if CHR ''.'' \<in> set token then PFloat (float_of_str H token)
                           else PInt (int_of_str token)), pos + 1))
         else if isalpha token then Some (Inr (Symbol token, pos + 1))
         else Some (Inl (ValueError (''Invalid token: '' @ token))))
      else Some (Inl IndexError))"

  by pat_completeness auto
termination
  by (relation "measure (case_sum (case_sum (\<lambda>p. fst (snd p)) (case_sum (\<lambda>p. fst (snd p)) (\<lambda>p. fst (snd p))))
                            (case_sum (\<lambda>p. fst (snd p)) (case_sum (\<lambda>p. fst (snd p)) (\<lambda>p. fst (snd p)))))")
    simp_all

text \<open>
  \<^verbatim>\<open>Parser.parse\<close>: tokenize, parse an expression from the first token, and refuse what
  is left. Each call of a method either reads a token or is one of at most four calls
  between two reads, so four levels for each token and four more are levels enough
  (lemma \<open>parse_returns\<close> below).
\<close>

definition parse :: "'f host \<Rightarrow> string \<Rightarrow> (error + 'f expr) option" where
  "parse H s =
     (let tokens = tokenize s in
      case expression H (4 * length tokens + 4) tokens 0 of
        None \<Rightarrow> None
      | Some (Inl e) \<Rightarrow> Some (Inl e)
      | Some (Inr (result, pos)) \<Rightarrow>
          if pos < length tokens then Some (Inl (ValueError (''Unexpected token: '' @ tokens ! pos)))
          else Some (Inr result))"

subsection \<open>Notions used in the statements\<close>

text \<open>
  A tree that the constructors can have built: \<^verbatim>\<open>Add\<close> and \<^verbatim>\<open>Multiply\<close> have at least
  one operand, \<^verbatim>\<open>Subtract\<close>, \<^verbatim>\<open>Divide\<close> and \<^verbatim>\<open>Power\<close> exactly two. Every tree of the
  parser is one.
\<close>

fun well_formed :: "'f expr \<Rightarrow> bool" where
  "well_formed (Num n) = True"
| "well_formed (Symbol name) = True"
| "well_formed (Op k as) =
     ((if binary k then length as = 2 else as \<noteq> []) \<and> list_all well_formed as)"

text \<open>
  A tree with no symbol: its leaves are numbers.
\<close>

fun closed :: "'f expr \<Rightarrow> bool" where
  "closed (Num n) = True"
| "closed (Symbol name) = False"
| "closed (Op k as) = (as \<noteq> [] \<and> list_all closed as)"

text \<open>
  Substitution as the specification words it, to be compared with \<open>substitute\<close>: every symbol
  whose name is a key of the map is replaced by the mapped expression, every other symbol
  and every number stays, and an operator node is rebuilt with its kind over its
  substituted operands, one for one.
\<close>

fun substitute_spec :: "'f expr \<Rightarrow> (string \<rightharpoonup> 'f expr) \<Rightarrow> 'f expr" where
  "substitute_spec (Num n) m = Num n"
| "substitute_spec (Symbol name) m = (case m name of Some r \<Rightarrow> r | None \<Rightarrow> Symbol name)"
| "substitute_spec (Op k as) m = Op k (map (\<lambda>a. substitute_spec a m) as)"


text \<open>
  What a parser method returns when it was not cut off: an exception, or a tree with a
  cursor that has moved on (\<open>advances\<close>, for the four methods) or has not moved back
  (\<open>keeps\<close>, for the two loops).
\<close>

definition advances :: "nat \<Rightarrow> 'f parsed \<Rightarrow> bool" where
  "advances pos r =
     (case r of None \<Rightarrow> False | Some (Inl e) \<Rightarrow> True | Some (Inr (e, p)) \<Rightarrow> pos < p)"

definition keeps :: "nat \<Rightarrow> 'f parsed \<Rightarrow> bool" where
  "keeps pos r =
     (case r of None \<Rightarrow> False | Some (Inl e) \<Rightarrow> True | Some (Inr (e, p)) \<Rightarrow> pos \<le> p)"

text \<open>
  A host for closed instances that reach no float operation: its float type has a single
  value, and every arithmetic operator on it overflows.
\<close>

definition integer_host :: "unit host" where
  "integer_host =
     \<lparr>float_of_str = (\<lambda>token. ()),
      float_eq_int = (\<lambda>f k. False),
      float_binop = (\<lambda>bop x y. Inl OverflowError),
      float_str = (\<lambda>f. ''nan'')\<rparr>"

section \<open>Lemmas\<close>

subsection \<open>Operator nodes\<close>

lemma collect_map_Inr:
  "list_all (\<lambda>a. f a = Inr (g a)) as \<Longrightarrow> collect (map f as) = Inr (map g as)"
  by (induction as) auto

lemma construct_ok:
  "(if binary k then length as = 2 else as \<noteq> []) \<Longrightarrow> construct k as = Inr (Op k as)"
  by (auto simp: construct_def split: if_splits)

lemma substitute_refines:
  "well_formed e \<Longrightarrow> substitute e m = Inr (substitute_spec e m)"
proof (induction e)
  case (Num n)
  show ?case by simp
next
  case (Symbol s)
  show ?case by (simp split: option.splits)
next
  case (Op k as)
  have "list_all (\<lambda>a. substitute a m = Inr (substitute_spec a m)) as"
    using Op by (auto simp: list_all_iff)
  then have c: "collect (map (\<lambda>a. substitute a m) as) = Inr (map (\<lambda>a. substitute_spec a m) as)"
    by (rule collect_map_Inr)
  have "construct k (map (\<lambda>a. substitute_spec a m) as) =
          Inr (Op k (map (\<lambda>a. substitute_spec a m) as))"
    using Op.prems by (intro construct_ok) (auto split: if_splits)
  with c show ?case by simp
qed

text \<open>
  Evaluation reaches the leftmost leaf first, and on a number it raises: no closed tree
  evaluates at all, whatever the bindings.
\<close>

lemma closed_raises:
  "closed e \<Longrightarrow>
     evaluate H e kw =
       Inl (if is_number e \<or> kw ''self'' = None then AttributeError else TypeError)"
proof (induction e)
  case (Num n)
  show ?case by simp
next
  case (Symbol s)
  then show ?case by simp
next
  case (Op k as)
  show ?case
  proof (cases "kw ''self'' = None")
    case False
    then show ?thesis by auto
  next
    case True
    from Op.prems obtain a rest where as: "as = a # rest" by (cases as) auto
    with Op True have "evaluate H a kw = Inl AttributeError" by simp
    with as True show ?thesis by simp
  qed
qed

text \<open>
  Where both operands of a \<^verbatim>\<open>Divide\<close> node do evaluate to numbers and the right one is
  zero, the node raises a \<^verbatim>\<open>ZeroDivisionError\<close> whatever the host's division does:
  \<^verbatim>\<open>Divide._op\<close> tests \<^verbatim>\<open>denominator == 0\<close> before it divides.
\<close>

lemma divide_zero_test_first:
  assumes "evaluate H n kw = Inr (Num a)"
    and "evaluate H d kw = Inr (Num z)"
    and "num_eq_int H z 0"
  shows "evaluate H (Op Divide [n, d]) kw = Inl ZeroDivisionError"
proof -
  have "kw ''self'' = None"
    using assms(1) by (cases n) (auto split: if_splits)
  with assms show ?thesis by simp
qed

subsection \<open>The tokenizer\<close>






text \<open>A string of digits, and one with a dot after its first digits, is one token.\<close>

lemma digit_not_space: "is_digit c \<Longrightarrow> c \<noteq> CHR '' ''"
  by (auto simp: is_digit_def)

lemma digit_not_paren: "is_digit c \<Longrightarrow> c \<noteq> CHR ''(''"
  by (auto simp: is_digit_def)

lemma digit_not_dot: "is_digit c \<Longrightarrow> c \<noteq> CHR ''.''"
  by (auto simp: is_digit_def)

lemma digits_no_dot: "list_all is_digit ds \<Longrightarrow> CHR ''.'' \<notin> set ds"
  by (induction ds) (auto dest: digit_not_dot)

lemma filter_digits: "list_all is_digit ds \<Longrightarrow> filter (\<lambda>c. c \<noteq> CHR '' '') ds = ds"
  by (induction ds) (auto dest: digit_not_space)

lemma filter_float:
  assumes "list_all is_digit ds" "list_all is_digit fs"
  shows "filter (\<lambda>c. c \<noteq> CHR '' '') (ds @ ''.'' @ fs) = ds @ ''.'' @ fs"
  using filter_digits [OF assms(1)] filter_digits [OF assms(2)] by simp

lemma takeWhile_digits: "list_all is_digit ds \<Longrightarrow> takeWhile is_digit ds = ds"
  by (induction ds) auto

lemma dropWhile_digits: "list_all is_digit ds \<Longrightarrow> dropWhile is_digit ds = []"
  by (induction ds) auto

lemma takeWhile_digits_dot:
  "list_all is_digit ds \<Longrightarrow> takeWhile is_digit (ds @ CHR ''.'' # fs) = ds"
  by (induction ds) (auto simp: is_digit_def)

lemma dropWhile_digits_dot:
  "list_all is_digit ds \<Longrightarrow> dropWhile is_digit (ds @ CHR ''.'' # fs) = CHR ''.'' # fs"
  by (induction ds) (auto simp: is_digit_def)

lemma findall_int:
  assumes "is_digit c" "list_all is_digit cs"
  shows "findall (c # cs) = [c # cs]"
  using assms(1) takeWhile_digits [OF assms(2)] dropWhile_digits [OF assms(2)]
  by (simp del: dropWhile_eq_Nil_conv)

lemma findall_float:
  assumes "is_digit c" "list_all is_digit cs" "list_all is_digit fs"
  shows "findall (c # cs @ CHR ''.'' # fs) = [c # cs @ CHR ''.'' # fs]"
  using assms(1) takeWhile_digits_dot [OF assms(2), of fs] dropWhile_digits_dot [OF assms(2), of fs]
    takeWhile_digits [OF assms(3)] dropWhile_digits [OF assms(3)]
  by (simp del: dropWhile_eq_Nil_conv dropWhile_eq_Cons_conv)

lemma tokenize_int:
  assumes "ds \<noteq> []" "list_all is_digit ds"
  shows "tokenize ds = [ds]"
proof -
  from assms obtain c cs where ds: "ds = c # cs" by (cases ds) auto
  with assms have "is_digit c" and "list_all is_digit cs" by simp_all
  then have "findall ds = [ds]" unfolding ds by (rule findall_int)
  then show ?thesis unfolding tokenize_def filter_digits [OF assms(2)] .
qed

lemma tokenize_float:
  assumes "ds \<noteq> []" "list_all is_digit ds" "list_all is_digit fs"
  shows "tokenize (ds @ ''.'' @ fs) = [ds @ ''.'' @ fs]"
proof -
  from assms obtain c cs where ds: "ds = c # cs" by (cases ds) auto
  with assms have "is_digit c" and "list_all is_digit cs" by simp_all
  then have "findall (c # cs @ CHR ''.'' # fs) = [c # cs @ CHR ''.'' # fs]"
    using assms(3) by (rule findall_float)
  then have "findall (ds @ ''.'' @ fs) = [ds @ ''.'' @ fs]" unfolding ds by simp
  then show ?thesis unfolding tokenize_def filter_float [OF assms(2,3)] .
qed

subsection \<open>Parsing one number token\<close>

lemma factor_number:
  assumes "t \<noteq> ''(''" "isdigit t \<or> CHR ''.'' \<in> set t"
  shows "factor H (Suc n) [t] 0 =
           Some (Inr (Num (if CHR ''.'' \<in> set t then PFloat (float_of_str H t)
                           else PInt (int_of_str t)), 1))"
proof -
  have "factor H (Suc n) [t] 0 =
     (if isdigit t \<or> CHR ''.'' \<in> set t then
           Some (Inr (Num (if CHR ''.'' \<in> set t then PFloat (float_of_str H t)
                           else PInt (int_of_str t)), 0 + 1))
         else if isalpha t then Some (Inr (Symbol t, 0 + 1))
         else Some (Inl (ValueError (''Invalid token: '' @ t))))"
    unfolding factor.simps Let_def using assms(1)
    by (simp only: length_Cons list.size nth_Cons_0 if_True if_False lessI)
  then show ?thesis using assms(2) by (simp only: if_True One_nat_def add_0)
qed

lemma power_number:
  assumes "t \<noteq> ''(''" "isdigit t \<or> CHR ''.'' \<in> set t"
  shows "power' H (Suc (Suc n)) [t] 0 =
           Some (Inr (Num (if CHR ''.'' \<in> set t then PFloat (float_of_str H t)
                           else PInt (int_of_str t)), 1))"
  by (simp add: factor_number [OF assms] del: factor.simps)

lemma term_number:
  assumes "t \<noteq> ''(''" "isdigit t \<or> CHR ''.'' \<in> set t"
  shows "term' H (Suc (Suc (Suc n))) [t] 0 =
           Some (Inr (Num (if CHR ''.'' \<in> set t then PFloat (float_of_str H t)
                           else PInt (int_of_str t)), 1))"
  by (simp add: power_number [OF assms] del: factor.simps power'.simps)

lemma expression_number:
  assumes "t \<noteq> ''(''" "isdigit t \<or> CHR ''.'' \<in> set t"
  shows "expression H (Suc (Suc (Suc (Suc n)))) [t] 0 =
           Some (Inr (Num (if CHR ''.'' \<in> set t then PFloat (float_of_str H t)
                           else PInt (int_of_str t)), 1))"
  by (simp add: term_number [OF assms] del: factor.simps power'.simps term'.simps)

lemma fuel_single: "4 * length [t] + 4 = Suc (Suc (Suc (Suc 4)))"
  by simp

lemma parse_token:
  assumes "tokenize s = [t]" "t \<noteq> ''(''" "isdigit t \<or> CHR ''.'' \<in> set t"
  shows "parse H s = Some (Inr (Num (if CHR ''.'' \<in> set t then PFloat (float_of_str H t)
                           else PInt (int_of_str t))))"
  unfolding parse_def Let_def assms(1) fuel_single expression_number [OF assms(2,3)]
  by simp

lemma not_paren_token: "c \<noteq> CHR ''('' \<Longrightarrow> c # cs \<noteq> ''(''"
  by simp

lemma isdigit_digits: "ds \<noteq> [] \<Longrightarrow> list_all is_digit ds \<Longrightarrow> isdigit ds"
  by (simp add: isdigit_def)

lemma dot_in_float: "CHR ''.'' \<in> set (ds @ ''.'' @ fs)"
  by simp

lemma parse_int_token:
  assumes "ds \<noteq> []" "list_all is_digit ds"
  shows "parse H ds = Some (Inr (Num (PInt (int_of_str ds))))"
proof -
  from assms(1) obtain c cs where ds: "ds = c # cs" by (cases ds) simp_all
  from assms(2) have "is_digit c" unfolding ds by simp
  then have "c \<noteq> CHR ''(''" by (rule digit_not_paren)
  then have p: "ds \<noteq> ''(''" unfolding ds by (rule not_paren_token)
  have d: "isdigit ds \<or> CHR ''.'' \<in> set ds"
    using isdigit_digits [OF assms] ..
  have "parse H ds = Some (Inr (Num (if CHR ''.'' \<in> set ds then PFloat (float_of_str H ds)
                           else PInt (int_of_str ds))))"
    by (rule parse_token [OF tokenize_int [OF assms] p d])
  then show ?thesis
    using digits_no_dot [OF assms(2)] by (simp only: if_False)
qed

lemma parse_float_token:
  assumes "ds \<noteq> []" "list_all is_digit ds" "list_all is_digit fs"
  shows "parse H (ds @ ''.'' @ fs) = Some (Inr (Num (PFloat (float_of_str H (ds @ ''.'' @ fs)))))"
proof -
  from assms(1) obtain c cs where ds: "ds = c # cs" by (cases ds) simp_all
  from assms(2) have "is_digit c" unfolding ds by simp
  then have "c \<noteq> CHR ''(''" by (rule digit_not_paren)
  then have "c # (cs @ ''.'' @ fs) \<noteq> ''(''" by (rule not_paren_token)
  then have p: "ds @ ''.'' @ fs \<noteq> ''(''" unfolding ds by simp
  have d: "isdigit (ds @ ''.'' @ fs) \<or> CHR ''.'' \<in> set (ds @ ''.'' @ fs)"
    using dot_in_float ..
  have "parse H (ds @ ''.'' @ fs) = Some (Inr (Num (if CHR ''.'' \<in> set (ds @ ''.'' @ fs)
            then PFloat (float_of_str H (ds @ ''.'' @ fs)) else PInt (int_of_str (ds @ ''.'' @ fs)))))"
    by (rule parse_token [OF tokenize_float [OF assms] p d])
  then show ?thesis
    using dot_in_float [of ds fs] by (simp only: if_True)
qed

subsection \<open>The parser is never cut off\<close>

text \<open>
  With a depth of \<open>4 * (length tokens - pos) + k\<close> left, where \<open>k\<close> is 4 for
  \<open>expression\<close>, 3 for \<open>term'\<close>, 2 for \<open>power'\<close> and 1 for \<open>factor\<close> and the two
  loops, no method is cut off, and a method that returns a tree has read a token. So
  \<open>parse\<close>, which starts with \<open>4 * length tokens + 4\<close>, always returns what the source
  returns: a tree or an exception.
\<close>

lemma keeps_advances: "pos < p \<Longrightarrow> keeps p r \<Longrightarrow> advances pos r"
  by (auto simp: keeps_def advances_def split: option.splits sum.splits)

lemma keeps_keeps: "pos \<le> p \<Longrightarrow> keeps p r \<Longrightarrow> keeps pos r"
  by (auto simp: keeps_def split: option.splits sum.splits)

lemma advances_cases:
  assumes "advances pos r"
  obtains e where "r = Some (Inl e)" | x p where "r = Some (Inr (x, p))" "pos < p"
  using assms by (auto simp: advances_def split: option.splits sum.splits)

lemma expression_Suc:
  assumes t: "\<And>pos. 4 * (length ts - pos) + 3 \<le> n \<Longrightarrow> advances pos (term' H n ts pos)"
    and l: "\<And>pos left. 4 * (length ts - pos) + 1 \<le> n \<Longrightarrow> keeps pos (expression_loop H n ts left pos)"
    and n: "4 * (length ts - pos) + 4 \<le> Suc n"
  shows "advances pos (expression H (Suc n) ts pos)"
proof -
  from n have "4 * (length ts - pos) + 3 \<le> n" by simp
  then have "advances pos (term' H n ts pos)" by (rule t)
  then show ?thesis
  proof (cases rule: advances_cases)
    case (1 e)
    then show ?thesis by (simp add: advances_def)
  next
    case (2 x p)
    from n 2(2) have "4 * (length ts - p) + 1 \<le> n" by arith
    then have "keeps p (expression_loop H n ts x p)" by (rule l)
    with 2(2) have "advances pos (expression_loop H n ts x p)" by (rule keeps_advances)
    with 2(1) show ?thesis by simp
  qed
qed

lemma keeps_cases:
  assumes "keeps pos r"
  obtains e where "r = Some (Inl e)" | x p where "r = Some (Inr (x, p))" "pos \<le> p"
  using assms by (auto simp: keeps_def split: option.splits sum.splits)

lemma expression_loop_Suc:
  assumes t: "\<And>pos. 4 * (length ts - pos) + 3 \<le> n \<Longrightarrow> advances pos (term' H n ts pos)"
    and l: "\<And>pos left. 4 * (length ts - pos) + 1 \<le> n \<Longrightarrow> keeps pos (expression_loop H n ts left pos)"
    and n: "4 * (length ts - pos) + 1 \<le> Suc n"
  shows "keeps pos (expression_loop H (Suc n) ts left pos)"
proof (cases "pos < length ts \<and> (ts ! pos = ''+'' \<or> ts ! pos = ''-'')")
  case False
  then have "expression_loop H (Suc n) ts left pos = Some (Inr (left, pos))"
    by (simp only: expression_loop.simps if_False)
  then show ?thesis by (simp add: keeps_def)
next
  case True
  with n have "4 * (length ts - (pos + 1)) + 3 \<le> n" by arith
  then have "advances (pos + 1) (term' H n ts (pos + 1))" by (rule t)
  then show ?thesis
  proof (cases rule: advances_cases)
    case (1 e)
    with True show ?thesis by (simp add: keeps_def)
  next
    case (2 x p)
    from n True 2(2) have "4 * (length ts - p) + 1 \<le> n" by arith
    then have "keeps p (expression_loop H n ts
        (if ts ! pos = ''+'' then Op Add [left, x] else Op Subtract [left, x]) p)"
      by (rule l)
    moreover from 2(2) have "pos \<le> p" by simp
    ultimately have "keeps pos (expression_loop H n ts
        (if ts ! pos = ''+'' then Op Add [left, x] else Op Subtract [left, x]) p)"
      by (rule keeps_keeps [rotated])
    with True 2(1) show ?thesis by simp
  qed
qed

lemma term_Suc:
  assumes p: "\<And>pos. 4 * (length ts - pos) + 2 \<le> n \<Longrightarrow> advances pos (power' H n ts pos)"
    and l: "\<And>pos left. 4 * (length ts - pos) + 1 \<le> n \<Longrightarrow> keeps pos (term_loop H n ts left pos)"
    and n: "4 * (length ts - pos) + 3 \<le> Suc n"
  shows "advances pos (term' H (Suc n) ts pos)"
proof -
  from n have "4 * (length ts - pos) + 2 \<le> n" by simp
  then have "advances pos (power' H n ts pos)" by (rule p)
  then show ?thesis
  proof (cases rule: advances_cases)
    case (1 e)
    then show ?thesis by (simp add: advances_def)
  next
    case (2 x q)
    from n 2(2) have "4 * (length ts - q) + 1 \<le> n" by arith
    then have "keeps q (term_loop H n ts x q)" by (rule l)
    with 2(2) have "advances pos (term_loop H n ts x q)" by (rule keeps_advances)
    with 2(1) show ?thesis by simp
  qed
qed

lemma term_loop_Suc:
  assumes p: "\<And>pos. 4 * (length ts - pos) + 2 \<le> n \<Longrightarrow> advances pos (power' H n ts pos)"
    and l: "\<And>pos left. 4 * (length ts - pos) + 1 \<le> n \<Longrightarrow> keeps pos (term_loop H n ts left pos)"
    and n: "4 * (length ts - pos) + 1 \<le> Suc n"
  shows "keeps pos (term_loop H (Suc n) ts left pos)"
proof (cases "pos < length ts \<and> (ts ! pos = ''*'' \<or> ts ! pos = ''/'')")
  case False
  then have "term_loop H (Suc n) ts left pos = Some (Inr (left, pos))"
    by (simp only: term_loop.simps if_False)
  then show ?thesis by (simp add: keeps_def)
next
  case True
  with n have "4 * (length ts - (pos + 1)) + 2 \<le> n" by arith
  then have "advances (pos + 1) (power' H n ts (pos + 1))" by (rule p)
  then show ?thesis
  proof (cases rule: advances_cases)
    case (1 e)
    with True show ?thesis by (simp add: keeps_def)
  next
    case (2 x q)
    from n True 2(2) have "4 * (length ts - q) + 1 \<le> n" by arith
    then have "keeps q (term_loop H n ts
        (if ts ! pos = ''*'' then Op Multiply [left, x] else Op Divide [left, x]) q)"
      by (rule l)
    moreover from 2(2) have "pos \<le> q" by simp
    ultimately have "keeps pos (term_loop H n ts
        (if ts ! pos = ''*'' then Op Multiply [left, x] else Op Divide [left, x]) q)"
      by (rule keeps_keeps [rotated])
    with True 2(1) show ?thesis by simp
  qed
qed


lemma power_Suc:
  assumes f: "\<And>pos. 4 * (length ts - pos) + 1 \<le> n \<Longrightarrow> advances pos (factor H n ts pos)"
    and p: "\<And>pos. 4 * (length ts - pos) + 2 \<le> n \<Longrightarrow> advances pos (power' H n ts pos)"
    and n: "4 * (length ts - pos) + 2 \<le> Suc n"
  shows "advances pos (power' H (Suc n) ts pos)"
proof -
  from n have "4 * (length ts - pos) + 1 \<le> n" by simp
  then have "advances pos (factor H n ts pos)" by (rule f)
  then show ?thesis
  proof (cases rule: advances_cases)
    case (1 e)
    then show ?thesis by (simp add: advances_def)
  next
    case (2 x q)
    show ?thesis
    proof (cases "q < length ts \<and> ts ! q = ''^''")
      case False
      with 2 show ?thesis by (auto simp: advances_def)
    next
      case True
      with n 2(2) have "4 * (length ts - (q + 1)) + 2 \<le> n" by arith
      then have "advances (q + 1) (power' H n ts (q + 1))" by (rule p)
      then show ?thesis
      proof (cases rule: advances_cases)
        case (1 e)
        with 2 True show ?thesis by (simp add: advances_def)
      next
        case inner: (2 y r)
        with 2 True show ?thesis by (simp add: advances_def)
      qed
    qed
  qed
qed

lemma factor_Suc:
  assumes e: "\<And>pos. 4 * (length ts - pos) + 4 \<le> n \<Longrightarrow> advances pos (expression H n ts pos)"
    and n: "4 * (length ts - pos) + 1 \<le> Suc n"
  shows "advances pos (factor H (Suc n) ts pos)"
proof (cases "pos < length ts")
  case False
  then show ?thesis by (simp add: advances_def)
next
  case True
  show ?thesis
  proof (cases "ts ! pos = ''(''")
    case False
    with True show ?thesis by (simp add: advances_def Let_def)
  next
    case paren: True
    from n True have "4 * (length ts - (pos + 1)) + 4 \<le> n" by arith
    then have "advances (pos + 1) (expression H n ts (pos + 1))" by (rule e)
    then show ?thesis
    proof (cases rule: advances_cases)
      case (1 e)
      with True paren show ?thesis by (simp add: advances_def Let_def)
    next
      case (2 x q)
      with True paren show ?thesis by (simp add: advances_def Let_def)
    qed
  qed
qed


lemma fuel_enough:
  "(\<forall>pos. 4 * (length ts - pos) + 4 \<le> n \<longrightarrow> advances pos (expression H n ts pos))
 \<and> (\<forall>pos left. 4 * (length ts - pos) + 1 \<le> n \<longrightarrow> keeps pos (expression_loop H n ts left pos))
 \<and> (\<forall>pos. 4 * (length ts - pos) + 3 \<le> n \<longrightarrow> advances pos (term' H n ts pos))
 \<and> (\<forall>pos left. 4 * (length ts - pos) + 1 \<le> n \<longrightarrow> keeps pos (term_loop H n ts left pos))
 \<and> (\<forall>pos. 4 * (length ts - pos) + 2 \<le> n \<longrightarrow> advances pos (power' H n ts pos))
 \<and> (\<forall>pos. 4 * (length ts - pos) + 1 \<le> n \<longrightarrow> advances pos (factor H n ts pos))"
proof (induction n)
  case 0
  show ?case by simp
next
  case (Suc n)
  from Suc have e: "\<And>pos. 4 * (length ts - pos) + 4 \<le> n \<Longrightarrow> advances pos (expression H n ts pos)"
    by blast
  from Suc have el: "\<And>pos left. 4 * (length ts - pos) + 1 \<le> n \<Longrightarrow>
      keeps pos (expression_loop H n ts left pos)"
    by blast
  from Suc have t: "\<And>pos. 4 * (length ts - pos) + 3 \<le> n \<Longrightarrow> advances pos (term' H n ts pos)"
    by blast
  from Suc have tl: "\<And>pos left. 4 * (length ts - pos) + 1 \<le> n \<Longrightarrow>
      keeps pos (term_loop H n ts left pos)"
    by blast
  from Suc have p: "\<And>pos. 4 * (length ts - pos) + 2 \<le> n \<Longrightarrow> advances pos (power' H n ts pos)"
    by blast
  from Suc have f: "\<And>pos. 4 * (length ts - pos) + 1 \<le> n \<Longrightarrow> advances pos (factor H n ts pos)"
    by blast
  have 1: "\<forall>pos. 4 * (length ts - pos) + 4 \<le> Suc n \<longrightarrow> advances pos (expression H (Suc n) ts pos)"
    using expression_Suc [of ts n H, OF t el] by blast
  have 2: "\<forall>pos left. 4 * (length ts - pos) + 1 \<le> Suc n \<longrightarrow>
      keeps pos (expression_loop H (Suc n) ts left pos)"
    using expression_loop_Suc [of ts n H, OF t el] by blast
  have 3: "\<forall>pos. 4 * (length ts - pos) + 3 \<le> Suc n \<longrightarrow> advances pos (term' H (Suc n) ts pos)"
    using term_Suc [of ts n H, OF p tl] by blast
  have 4: "\<forall>pos left. 4 * (length ts - pos) + 1 \<le> Suc n \<longrightarrow>
      keeps pos (term_loop H (Suc n) ts left pos)"
    using term_loop_Suc [of ts n H, OF p tl] by blast
  have 5: "\<forall>pos. 4 * (length ts - pos) + 2 \<le> Suc n \<longrightarrow> advances pos (power' H (Suc n) ts pos)"
    using power_Suc [of ts n H, OF f p] by blast
  have 6: "\<forall>pos. 4 * (length ts - pos) + 1 \<le> Suc n \<longrightarrow> advances pos (factor H (Suc n) ts pos)"
    using factor_Suc [of ts n H, OF e] by blast
  from 1 2 3 4 5 6 show ?case by blast
qed

lemma expression_returns:
  "advances 0 (expression H (4 * length ts + 4) ts 0)"
  using fuel_enough [of ts "4 * length ts + 4" H] by simp

lemma parse_returns: "\<exists>r. parse H s = Some r"
proof -
  have "advances 0 (expression H (4 * length (tokenize s) + 4) (tokenize s) 0)"
    by (rule expression_returns)
  then show ?thesis
    by (cases rule: advances_cases) (simp_all add: parse_def Let_def)
qed

subsection \<open>Evaluating concrete inputs\<close>

lemmas char_class_defs =
  is_digit_def is_letter_def is_ident_start_def is_ident_char_def is_op_char_def

lemmas token_test_defs = isdigit_def isalpha_def int_of_str_def digit_val_def

section \<open>Claims\<close>

text \<open>
  C1. The claim: for every expression tree with no free symbols, whose leaves are all
  numeric constants, \<^verbatim>\<open>evaluate(expr, {})\<close> returns a number. The code does not: a numeric
  leaf is a bare \<^verbatim>\<open>int\<close>, and \<^verbatim>\<open>SymbolicOperator.evaluate\<close> calls
  \<^verbatim>\<open>arg.evaluate(**kwargs)\<close> on it. The tree \<^verbatim>\<open>Add(1, 2)\<close>, which is what the parser
  builds for \<^verbatim>\<open>1 + 2\<close>, evaluates to an \<^verbatim>\<open>AttributeError\<close>, not to 3, although
  \<^verbatim>\<open>Add._op\<close> gives 3 on the two numbers.
\<close>

theorem C1_closed_tree_raises:
  "parse H ''1 + 2'' = Some (Inr (Op Add [Num (PInt 1), Num (PInt 2)]))
   \<and> evaluate H (Op Add [Num (PInt 1), Num (PInt 2)]) Map.empty = Inl AttributeError
   \<and> op_num H Add [PInt 1, PInt 2] = Inr (PInt 3)"
  by (simp add: parse_def tokenize_def char_class_defs token_test_defs numeral_eq_Suc)

text \<open>
  C2. The claim: parsing \<^verbatim>\<open>x + 2 * y\<close> and evaluating the tree with x = 3 and y = 4
  returns 11. The parser does bind the product tighter, but the tree holds the bare
  \<^verbatim>\<open>int\<close> 2 as an operand of \<^verbatim>\<open>Multiply\<close>, and evaluating it raises an
  \<^verbatim>\<open>AttributeError\<close>.
\<close>

theorem C2_parse_then_evaluate_raises:
  "parse H ''x + 2 * y'' =
     Some (Inr (Op Add [Symbol ''x'', Op Multiply [Num (PInt 2), Symbol ''y'']]))
   \<and> evaluate H (Op Add [Symbol ''x'', Op Multiply [Num (PInt 2), Symbol ''y'']])
        [''x'' \<mapsto> BNum (PInt 3), ''y'' \<mapsto> BNum (PInt 4)] = Inl AttributeError"
  by (simp add: parse_def tokenize_def char_class_defs token_test_defs numeral_eq_Suc)

text \<open>
  C3. The claim: \<^verbatim>\<open>2^3^2\<close> parses to \<^verbatim>\<open>Power(2, Power(3, 2))\<close>, and that tree evaluates
  to 512. The tree is as claimed, and \<^verbatim>\<open>Power._op\<close> gives 9 and then 512 on these
  numbers, but \<^verbatim>\<open>evaluate\<close> never reaches it: the operands are bare \<^verbatim>\<open>int\<close>s and the
  evaluation raises an \<^verbatim>\<open>AttributeError\<close>.
\<close>

theorem C3_power_tree_evaluation_raises:
  "parse H ''2^3^2'' =
     Some (Inr (Op Power [Num (PInt 2), Op Power [Num (PInt 3), Num (PInt 2)]]))
   \<and> evaluate H (Op Power [Num (PInt 2), Op Power [Num (PInt 3), Num (PInt 2)]]) Map.empty
        = Inl AttributeError
   \<and> op_num H Power [PInt 3, PInt 2] = Inr (PInt 9)
   \<and> op_num H Power [PInt 2, PInt 9] = Inr (PInt 512)"
  by (simp add: parse_def tokenize_def char_class_defs token_test_defs numeral_eq_Suc)

text \<open>
  C4. The claim: evaluating a \<^verbatim>\<open>Divide\<close> node whose right operand evaluates to zero fails
  with a division-by-zero error, the test coming before the division, and in particular
  \<^verbatim>\<open>1/x\<close> with x = 0 does. \<^verbatim>\<open>Divide._op\<close> does test \<^verbatim>\<open>denominator == 0\<close> first and
  raises on the numbers 1 and 0, but on the claim's own input it is never reached: the
  numerator is the bare \<^verbatim>\<open>int\<close> 1, and evaluating the tree raises an
  \<^verbatim>\<open>AttributeError\<close>, through the method and through \<^verbatim>\<open>ExpressionEvaluator\<close> alike.
\<close>

theorem C4_division_by_zero_example_raises_attribute_error:
  "parse H ''1/x'' = Some (Inr (Op Divide [Num (PInt 1), Symbol ''x'']))
   \<and> evaluate H (Op Divide [Num (PInt 1), Symbol ''x'']) [''x'' \<mapsto> BNum (PInt 0)]
        = Inl AttributeError
   \<and> evaluator_evaluate H (Op Divide [Num (PInt 1), Symbol ''x'']) [''x'' \<mapsto> BNum (PInt 0)]
        = Inl AttributeError
   \<and> op_num H Divide [PInt 1, PInt 0] = Inl ZeroDivisionError"
  by (simp add: parse_def tokenize_def char_class_defs token_test_defs numeral_eq_Suc
      evaluator_evaluate_def)



text \<open>
  C6. The claim: when the tokens end where a factor is expected, \<^verbatim>\<open>parse\<close> fails with
  its own parse error, the cursor being tested before every read. \<^verbatim>\<open>factor\<close> reads
  \<^verbatim>\<open>self.tokens[self.pos]\<close> without the test that every other read of the parser has, and
  the failure is the \<^verbatim>\<open>IndexError\<close> of the list, on \<^verbatim>\<open>2+\<close>, on \<^verbatim>\<open>(\<close> and on the empty
  string.
\<close>

theorem C6_end_of_input_is_index_error:
  "parse H ''2+'' = Some (Inl IndexError)
   \<and> parse H ''('' = Some (Inl IndexError)
   \<and> parse H '''' = Some (Inl IndexError)"
  by (simp add: parse_def tokenize_def char_class_defs token_test_defs numeral_eq_Suc)

text \<open>
  C7. The claim: \<^verbatim>\<open>simplify\<close> on an \<^verbatim>\<open>Add\<close> node drops the operands equal to 0, and
  \<^verbatim>\<open>Add(0, x)\<close> simplifies to \<^verbatim>\<open>x\<close>. The rule is there and gives \<^verbatim>\<open>x\<close> on the
  simplified operands, but they are never computed: \<^verbatim>\<open>arg.simplify()\<close> on the bare
  \<^verbatim>\<open>int\<close> 0 raises an \<^verbatim>\<open>AttributeError\<close>.
\<close>

theorem C7_simplify_add_zero_raises:
  "simplify H (Op Add [Num (PInt 0), Symbol ''x'']) = Inl AttributeError
   \<and> simplify_node H Add [Num (PInt 0), Symbol ''x''] = Inr (Symbol ''x'')"
  by simp

text \<open>
  C8. For every tree the constructors can have built and every substitution map,
  \<^verbatim>\<open>substitute\<close> raises nothing and returns the tree in which exactly the symbols whose
  name is a key are replaced; an operator node comes back with its kind and as many
  operands as it had. In particular \<^verbatim>\<open>x + y\<close> with \<^verbatim>\<open>x\<close> replaced by the symbol
  \<^verbatim>\<open>z\<close> renders as \<^verbatim>\<open>z + y\<close>.
\<close>

theorem C8_substitute_preserves_structure:
  assumes "well_formed e"
  shows "substitute e m = Inr (substitute_spec e m)
       \<and> (\<forall>k as. e = Op k as \<longrightarrow>
            (\<exists>as'. substitute e m = Inr (Op k as') \<and> length as' = length as))
       \<and> parse H ''x + y'' = Some (Inr (Op Add [Symbol ''x'', Symbol ''y'']))
       \<and> substitute (Op Add [Symbol ''x'', Symbol ''y'']) [''x'' \<mapsto> Symbol ''z'']
            = Inr (Op Add [Symbol ''z'', Symbol ''y''])
       \<and> render H (Op Add [Symbol ''z'', Symbol ''y'']) = Inr ''z + y''"
proof -
  have 1: "substitute e m = Inr (substitute_spec e m)"
    using assms by (rule substitute_refines)
  have 2: "\<forall>k as. e = Op k as \<longrightarrow>
            (\<exists>as'. substitute e m = Inr (Op k as') \<and> length as' = length as)"
    unfolding 1 by simp
  have 3: "parse H ''x + y'' = Some (Inr (Op Add [Symbol ''x'', Symbol ''y'']))"
    by (simp add: parse_def tokenize_def char_class_defs token_test_defs numeral_eq_Suc)
  have 4: "substitute (Op Add [Symbol ''x'', Symbol ''y'']) [''x'' \<mapsto> Symbol ''z'']
            = Inr (Op Add [Symbol ''z'', Symbol ''y''])"
    by (simp add: construct_def binary_def)
  have 5: "render H (Op Add [Symbol ''z'', Symbol ''y'']) = Inr ''z + y''"
    by (simp add: binary_def)
  from 1 2 3 4 5 show ?thesis by blast
qed

theorem C8_substitute_preserves_structure_witness:
  "substitute (Op Subtract [Symbol ''x'', Op Multiply [Num (PInt 2), Symbol ''y'']])
       [''x'' \<mapsto> Op Add [Symbol ''a'', Symbol ''b'']]
     = Inr (Op Subtract [Op Add [Symbol ''a'', Symbol ''b''],
                         Op Multiply [Num (PInt 2 :: unit pynum), Symbol ''y'']])
   \<and> render integer_host (Op Add [Symbol ''z'', Symbol ''y'']) = Inr ''z + y''"
proof -
  have wf: "well_formed (Op Subtract [Symbol ''x'', Op Multiply [Num (PInt 2 :: unit pynum), Symbol ''y'']])"
    by (simp add: binary_def)
  note c8 = C8_substitute_preserves_structure
    [OF wf, of "[''x'' \<mapsto> Op Add [Symbol ''a'', Symbol ''b'']]" integer_host]
  from c8 have "substitute (Op Subtract [Symbol ''x'', Op Multiply [Num (PInt 2), Symbol ''y'']])
       [''x'' \<mapsto> Op Add [Symbol ''a'', Symbol ''b'']]
     = Inr (substitute_spec (Op Subtract [Symbol ''x'', Op Multiply [Num (PInt 2 :: unit pynum), Symbol ''y'']])
       [''x'' \<mapsto> Op Add [Symbol ''a'', Symbol ''b'']])"
    by (rule conjunct1)
  moreover from c8 have "render integer_host (Op Add [Symbol ''z'', Symbol ''y'']) = Inr ''z + y''"
    by blast
  ultimately show ?thesis by simp
qed

text \<open>
  C9. The claim: every identifier token, such as \<^verbatim>\<open>x_1\<close>, \<^verbatim>\<open>_a\<close> or \<^verbatim>\<open>ab2\<close>, is a
  factor and yields a symbol of that name. The tokenizer makes each of them one token, but
  \<^verbatim>\<open>factor\<close> tests \<^verbatim>\<open>token.isalpha()\<close>, which a digit or an underscore fails, and
  raises \<^verbatim>\<open>ValueError("Invalid token: ...")\<close>.
\<close>

theorem C9_identifier_with_digit_or_underscore_rejected:
  "tokenize ''x_1'' = [''x_1'']
   \<and> parse H ''x_1'' = Some (Inl (ValueError ''Invalid token: x_1''))
   \<and> parse H ''_a'' = Some (Inl (ValueError ''Invalid token: _a''))
   \<and> parse H ''ab2'' = Some (Inl (ValueError ''Invalid token: ab2''))"
  by (simp add: parse_def tokenize_def char_class_defs token_test_defs numeral_eq_Suc)

text \<open>
  C10. There is no class for a numeric constant. For every input that is one number,
  digits or digits with a dot and more digits after them, \<^verbatim>\<open>parse\<close> returns the bare
  number, an \<^verbatim>\<open>int\<close> when the token has no dot and a \<^verbatim>\<open>float\<close> otherwise, and
  \<^verbatim>\<open>substitute\<close> returns a bare number as it is for every substitution map.
  (\<^verbatim>\<open>int(token)\<close> is modelled for a token of any length; an interpreter that limits the
  digits of such a conversion raises beyond its limit.)
\<close>

theorem C10_number_is_bare:
  assumes "ds \<noteq> []" and "list_all is_digit ds" and "list_all is_digit fs"
  shows "parse H ds = Some (Inr (Num (PInt (int_of_str ds))))
       \<and> parse H (ds @ ''.'' @ fs) = Some (Inr (Num (PFloat (float_of_str H (ds @ ''.'' @ fs)))))
       \<and> substitute (Num n) m = Inr (Num n)"
proof -
  have 1: "parse H ds = Some (Inr (Num (PInt (int_of_str ds))))"
    using assms(1,2) by (rule parse_int_token)
  have 2: "parse H (ds @ ''.'' @ fs) = Some (Inr (Num (PFloat (float_of_str H (ds @ ''.'' @ fs)))))"
    using assms by (rule parse_float_token)
  have 3: "substitute (Num n) m = Inr (Num n)" by simp
  from 1 2 3 show ?thesis by blast
qed

theorem C10_number_is_bare_witness:
  "parse integer_host ''42'' = Some (Inr (Num (PInt 42)))
   \<and> parse integer_host ''42.5'' = Some (Inr (Num (PFloat ())))
   \<and> substitute (Num (PInt 42)) [''x'' \<mapsto> Symbol ''z''] = Inr (Num (PInt 42 :: unit pynum))"
  using C10_number_is_bare [of "''42''" "''5''" integer_host "PInt 42" "[''x'' \<mapsto> Symbol ''z'']"]
  by (simp add: is_digit_def int_of_str_def digit_val_def)

end
